theory Spec2Isabelle
  imports Main
begin

section \<open>JavaScript values, promises and thunks\<close>

text \<open>
  The wrapper of \<^verbatim>\<open>src/tryCatch.ts\<close> never inspects the values it is handed: it
  awaits, catches and stores. The model therefore needs the values only up to equality,
  with \<^verbatim>\<open>null\<close> and promises told apart from the rest.

  A promise (or any other thenable, which \<^verbatim>\<open>await\<close> treats alike) is represented by
  the state it ends in: fulfilled with a value, rejected with a reason, or pending for
  ever (an operation that never settles). Objects that are neither errors nor thenables
  are references, so equality on them is identity. A number
  carries an integer: the wrapper computes nothing, and the values of the documented
  scenarios (\<open>42\<close>, \<open>7\<close>) are integral.

  In JavaScript the value a promise is fulfilled with is never itself a promise
  (resolution unwraps it); the datatype does not enforce this, and every theorem below
  holds for the larger set of values as well.
\<close>

datatype ('a, 'e) settlement = Pending | Fulfilled 'a | Rejected 'e

datatype jsval =
    JUndefined
  | JNull
  | JBool bool
  | JNumber int
  | JString string
  | JErrorObj string string
  | JObject nat
  | JPromise "(jsval, jsval) settlement"

type_synonym 'a promise = "('a, jsval) settlement"

fun is_promise :: "jsval \<Rightarrow> bool" where
  "is_promise (JPromise s) = True"
| "is_promise v = False"

fun is_error_object :: "jsval \<Rightarrow> bool" where
  "is_error_object (JErrorObj name message) = True"
| "is_error_object v = False"

text \<open>
  A thunk is a zero-argument callable, \<^verbatim>\<open>() => T | Promise<T>\<close>. Invoking it either
  returns a value (plain, or a promise) or throws one.
\<close>

datatype completion = Returns jsval | Throws jsval

type_synonym thunk = "unit \<Rightarrow> completion"

section \<open>The Result type\<close>

text \<open>
  \<^verbatim>\<open>Success<T> = { data: T; error: null }\<close> and
  \<^verbatim>\<open>Failure<E> = { data: null; error: E }\<close> share one flat shape, and
  \<^verbatim>\<open>Result<T, E>\<close> is their union. The type parameters are erased at run time
  (\<^verbatim>\<open>error as E\<close> is a cast without a check), so both slots hold a \<^typ>\<open>jsval\<close>.
\<close>

record result =
  data :: jsval
  error :: jsval

section \<open>Bodies of async functions\<close>

text \<open>
  Running a piece of an async function's body ends in one of three ways: it completes
  with a value, it throws, or it is suspended at an \<^verbatim>\<open>await\<close> whose operand never
  settles. Next to the outcome the model records the operands that were awaited, in
  order, so that "nothing was awaited" is a statement about the run.
\<close>

datatype 'a outcome = Done 'a | Thrown jsval | Never

type_synonym 'a async = "'a outcome \<times> jsval list"

definition ended :: "'a async \<Rightarrow> 'a outcome" where
  "ended m = fst m"

definition awaited :: "'a async \<Rightarrow> jsval list" where
  "awaited m = snd m"

definition return_value :: "'a \<Rightarrow> 'a async" where
  "return_value x = (Done x, [])"

text \<open>\<^verbatim>\<open>fn()\<close>: a synchronous call; a throw inside it surfaces at the call.\<close>

definition call :: "thunk \<Rightarrow> jsval async" where
  "call fn = (case fn () of Returns v \<Rightarrow> (Done v, []) | Throws e \<Rightarrow> (Thrown e, []))"

text \<open>
  \<^verbatim>\<open>await v\<close>: a promise yields its fulfilment value, throws its rejection reason, or
  never resumes; any other value is handed back as it is.
\<close>

fun await_outcome :: "jsval \<Rightarrow> jsval outcome" where
  "await_outcome (JPromise Pending) = Never"
| "await_outcome (JPromise (Fulfilled x)) = Done x"
| "await_outcome (JPromise (Rejected e)) = Thrown e"
| "await_outcome v = Done v"

definition await :: "jsval \<Rightarrow> jsval async" where
  "await v = (await_outcome v, [v])"

text \<open>Sequencing: the rest of the block runs only after a normal completion.\<close>

definition and_then :: "'a async \<Rightarrow> ('a \<Rightarrow> 'b async) \<Rightarrow> 'b async" where
  "and_then m f =
     (case ended m of
        Done x \<Rightarrow> (ended (f x), awaited m @ awaited (f x))
      | Thrown e \<Rightarrow> (Thrown e, awaited m)
      | Never \<Rightarrow> (Never, awaited m))"

text \<open>\<^verbatim>\<open>try { body } catch (error) { handler }\<close>: only a throw reaches the handler.\<close>

definition try_catch :: "'a async \<Rightarrow> (jsval \<Rightarrow> 'a async) \<Rightarrow> 'a async" where
  "try_catch body handler =
     (case ended body of
        Thrown e \<Rightarrow> (ended (handler e), awaited body @ awaited (handler e))
      | Done x \<Rightarrow> body
      | Never \<Rightarrow> body)"

text \<open>
  The promise an \<^verbatim>\<open>async\<close> function hands to its caller: fulfilled with the returned
  value, rejected with an uncaught throw, pending for ever when the body never resumes.
  Both functions return a fresh object literal, which is not a thenable, so the
  returned value is the fulfilment value.
\<close>

definition async_function :: "result async \<Rightarrow> result promise" where
  "async_function body =
     (case ended body of
        Done r \<Rightarrow> Fulfilled r
      | Thrown e \<Rightarrow> Rejected e
      | Never \<Rightarrow> Pending)"

section \<open>The two entry points\<close>

text \<open>
  \<^verbatim>\<open>
  export async function tryCatch<T, E = Error>(promise: Promise<T>): Promise<Result<T, E>> {
    try {
      const data = await promise;
      return { data, error: null };
    } catch (error) {
      return { data: null, error: error as E };
    }
  }
  \<close>
\<close>

definition tryCatch_body :: "jsval promise \<Rightarrow> result async" where
  "tryCatch_body promise =
     try_catch
       (and_then (await (JPromise promise))
          (\<lambda>d. return_value \<lparr>data = d, error = JNull\<rparr>))
       (\<lambda>e. return_value \<lparr>data = JNull, error = e\<rparr>)"

definition tryCatch :: "jsval promise \<Rightarrow> result promise" where
  "tryCatch promise = async_function (tryCatch_body promise)"

text \<open>
  \<^verbatim>\<open>
  export async function tryCatchFn<T, E = Error>(fn: () => T | Promise<T>): Promise<Result<T, E>> {
    try {
      const data = await fn();
      return { data, error: null };
    } catch (error) {
      return { data: null, error: error as E };
    }
  }
  \<close>
  The operand of \<^verbatim>\<open>await\<close> is evaluated first: when the call throws, the
  \<^verbatim>\<open>await\<close> is never reached.
\<close>

definition tryCatchFn_body :: "thunk \<Rightarrow> result async" where
  "tryCatchFn_body fn =
     try_catch
       (and_then (and_then (call fn) await)
          (\<lambda>d. return_value \<lparr>data = d, error = JNull\<rparr>))
       (\<lambda>e. return_value \<lparr>data = JNull, error = e\<rparr>)"

definition tryCatchFn :: "thunk \<Rightarrow> result promise" where
  "tryCatchFn fn = async_function (tryCatchFn_body fn)"

section \<open>Properties of results\<close>

text \<open>
  The absent marker of the source is \<^verbatim>\<open>null\<close>. A slot is populated when it holds
  anything else.
\<close>

definition exactly_one_populated :: "result \<Rightarrow> bool" where
  "exactly_one_populated r = ((data r \<noteq> JNull) \<noteq> (error r \<noteq> JNull))"

definition both_populated :: "result \<Rightarrow> bool" where
  "both_populated r = (data r \<noteq> JNull \<and> error r \<noteq> JNull)"

section \<open>Running the bodies\<close>

lemma tryCatch_body_Fulfilled:
  "tryCatch_body (Fulfilled v) =
     (Done \<lparr>data = v, error = JNull\<rparr>, [JPromise (Fulfilled v)])"
  by (simp add: tryCatch_body_def try_catch_def and_then_def await_def return_value_def
      ended_def awaited_def)

lemma tryCatch_body_Rejected:
  "tryCatch_body (Rejected e) =
     (Done \<lparr>data = JNull, error = e\<rparr>, [JPromise (Rejected e)])"
  by (simp add: tryCatch_body_def try_catch_def and_then_def await_def return_value_def
      ended_def awaited_def)

lemma tryCatch_body_Pending:
  "tryCatch_body Pending = (Never, [JPromise Pending])"
  by (simp add: tryCatch_body_def try_catch_def and_then_def await_def return_value_def
      ended_def awaited_def)

lemma tryCatchFn_body_Throws:
  "fn () = Throws e \<Longrightarrow> tryCatchFn_body fn = (Done \<lparr>data = JNull, error = e\<rparr>, [])"
  by (simp add: tryCatchFn_body_def try_catch_def and_then_def call_def return_value_def
      ended_def awaited_def)

lemma tryCatchFn_body_Returns_promise:
  "fn () = Returns (JPromise p) \<Longrightarrow> tryCatchFn_body fn = tryCatch_body p"
  by (simp add: tryCatchFn_body_def tryCatch_body_def try_catch_def and_then_def call_def
      ended_def awaited_def)

lemma await_outcome_plain: "\<not> is_promise v \<Longrightarrow> await_outcome v = Done v"
  by (cases v) simp_all

lemma tryCatchFn_body_Returns_plain:
  "fn () = Returns v \<Longrightarrow> \<not> is_promise v \<Longrightarrow>
     tryCatchFn_body fn = (Done \<lparr>data = v, error = JNull\<rparr>, [v])"
  by (simp add: tryCatchFn_body_def try_catch_def and_then_def call_def await_def
      return_value_def ended_def awaited_def await_outcome_plain)

lemma tryCatch_Fulfilled: "tryCatch (Fulfilled v) = Fulfilled \<lparr>data = v, error = JNull\<rparr>"
  by (simp add: tryCatch_def async_function_def tryCatch_body_Fulfilled ended_def)

lemma tryCatch_Rejected: "tryCatch (Rejected e) = Fulfilled \<lparr>data = JNull, error = e\<rparr>"
  by (simp add: tryCatch_def async_function_def tryCatch_body_Rejected ended_def)

lemma tryCatch_Pending: "tryCatch Pending = Pending"
  by (simp add: tryCatch_def async_function_def tryCatch_body_Pending ended_def)

lemma tryCatchFn_Throws:
  "fn () = Throws e \<Longrightarrow> tryCatchFn fn = Fulfilled \<lparr>data = JNull, error = e\<rparr>"
  by (simp add: tryCatchFn_def async_function_def tryCatchFn_body_Throws ended_def)

lemma tryCatchFn_Returns_promise:
  "fn () = Returns (JPromise p) \<Longrightarrow> tryCatchFn fn = tryCatch p"
  by (simp add: tryCatchFn_def tryCatch_def tryCatchFn_body_Returns_promise)

lemma tryCatchFn_Returns_plain:
  "fn () = Returns v \<Longrightarrow> \<not> is_promise v \<Longrightarrow>
     tryCatchFn fn = Fulfilled \<lparr>data = v, error = JNull\<rparr>"
  by (simp add: tryCatchFn_def async_function_def tryCatchFn_body_Returns_plain ended_def)

section \<open>Success and failure round trips\<close>

text \<open>
  C3. When the operation settles successfully with a value \<open>v\<close>, the result is
  \<^verbatim>\<open>{ data: v, error: null }\<close> with the very same \<open>v\<close>: for \<open>tryCatch\<close> on a promise
  fulfilled with \<open>v\<close>, and for \<open>tryCatchFn\<close> on a thunk that returns \<open>v\<close> itself (a value
  that is not a promise) or returns a promise fulfilled with \<open>v\<close>.
\<close>

theorem success_round_trip:
  "tryCatch (Fulfilled v) = Fulfilled \<lparr>data = v, error = JNull\<rparr> \<and>
   ((fn () = Returns v \<and> \<not> is_promise v) \<or> fn () = Returns (JPromise (Fulfilled v))
      \<longrightarrow> tryCatchFn fn = Fulfilled \<lparr>data = v, error = JNull\<rparr>)"
  by (auto simp: tryCatch_Fulfilled tryCatchFn_Returns_plain tryCatchFn_Returns_promise)

theorem success_round_trip_witness:
  "tryCatch (Fulfilled (JString ''ok'')) = Fulfilled \<lparr>data = JString ''ok'', error = JNull\<rparr> \<and>
   tryCatchFn (\<lambda>u. Returns (JString ''ok'')) = Fulfilled \<lparr>data = JString ''ok'', error = JNull\<rparr> \<and>
   tryCatchFn (\<lambda>u. Returns (JPromise (Fulfilled (JNumber 7)))) =
     Fulfilled \<lparr>data = JNumber 7, error = JNull\<rparr>"
  using success_round_trip [of "JString ''ok''" "\<lambda>u. Returns (JString ''ok'')"]
    success_round_trip [of "JNumber 7" "\<lambda>u. Returns (JPromise (Fulfilled (JNumber 7)))"]
  by simp

text \<open>
  C4. When the operation fails with a value \<open>e\<close>, the result is
  \<^verbatim>\<open>{ data: null, error: e }\<close> with the very same \<open>e\<close>: for \<open>tryCatch\<close> on a promise
  rejected with \<open>e\<close>, and for \<open>tryCatchFn\<close> on a thunk that throws \<open>e\<close> when called or
  returns a promise rejected with \<open>e\<close>.
\<close>

theorem failure_round_trip:
  "tryCatch (Rejected e) = Fulfilled \<lparr>data = JNull, error = e\<rparr> \<and>
   (fn () = Throws e \<or> fn () = Returns (JPromise (Rejected e))
      \<longrightarrow> tryCatchFn fn = Fulfilled \<lparr>data = JNull, error = e\<rparr>)"
  by (auto simp: tryCatch_Rejected tryCatchFn_Throws tryCatchFn_Returns_promise)

theorem failure_round_trip_witness:
  "tryCatch (Rejected (JErrorObj ''Error'' ''boom'')) =
     Fulfilled \<lparr>data = JNull, error = JErrorObj ''Error'' ''boom''\<rparr> \<and>
   tryCatchFn (\<lambda>u. Throws (JErrorObj ''Error'' ''boom'')) =
     Fulfilled \<lparr>data = JNull, error = JErrorObj ''Error'' ''boom''\<rparr> \<and>
   tryCatchFn (\<lambda>u. Returns (JPromise (Rejected (JObject 3)))) =
     Fulfilled \<lparr>data = JNull, error = JObject 3\<rparr>"
  using failure_round_trip [of "JErrorObj ''Error'' ''boom''"
      "\<lambda>u. Throws (JErrorObj ''Error'' ''boom'')"]
    failure_round_trip [of "JObject 3" "\<lambda>u. Returns (JPromise (Rejected (JObject 3)))"]
  by simp

text \<open>
  C5. A thunk that throws synchronously, such as
  \<^verbatim>\<open>() => { throw new RangeError("bad") }\<close>, gives a fulfilled promise holding the
  Failure with the thrown value; the run of the body awaited nothing, and the returned
  promise is not rejected.
\<close>

theorem sync_throw_captured:
  "fn () = Throws e \<Longrightarrow>
     tryCatchFn fn = Fulfilled \<lparr>data = JNull, error = e\<rparr> \<and>
     awaited (tryCatchFn_body fn) = []"
  by (simp add: tryCatchFn_Throws tryCatchFn_body_Throws awaited_def)

theorem sync_throw_captured_witness:
  "tryCatchFn (\<lambda>u. Throws (JErrorObj ''RangeError'' ''bad'')) =
     Fulfilled \<lparr>data = JNull, error = JErrorObj ''RangeError'' ''bad''\<rparr> \<and>
   awaited (tryCatchFn_body (\<lambda>u. Throws (JErrorObj ''RangeError'' ''bad''))) = []"
  using sync_throw_captured [of "\<lambda>u. Throws (JErrorObj ''RangeError'' ''bad'')"
      "JErrorObj ''RangeError'' ''bad''"]
  by simp

section \<open>Synchronous and asynchronous success\<close>

text \<open>
  C6. \<open>tryCatchFn\<close> on a thunk returning the plain value \<open>42\<close> and on a thunk returning
  a promise that resolves to \<open>42\<close> settle with the same result,
  \<^verbatim>\<open>{ data: 42, error: null }\<close>.
\<close>

theorem sync_async_uniform:
  "tryCatchFn (\<lambda>u. Returns (JNumber 42)) = Fulfilled \<lparr>data = JNumber 42, error = JNull\<rparr> \<and>
   tryCatchFn (\<lambda>u. Returns (JPromise (Fulfilled (JNumber 42)))) =
     Fulfilled \<lparr>data = JNumber 42, error = JNull\<rparr>"
  by (simp add: tryCatchFn_Returns_plain tryCatchFn_Returns_promise tryCatch_Fulfilled)

section \<open>Failures that are not error objects\<close>

text \<open>
  C7. A failure value that is not an error object (a thrown string or number, for
  instance) arrives in the error slot as it is: no validation and no normalisation
  happens on the way, whether the value was the rejection reason of the promise given to
  \<open>tryCatch\<close>, was thrown by the thunk, or was the rejection reason of the promise the
  thunk returned.
\<close>

theorem non_error_failure_passed_through:
  "\<not> is_error_object e \<Longrightarrow>
     tryCatch (Rejected e) = Fulfilled \<lparr>data = JNull, error = e\<rparr> \<and>
     tryCatchFn (\<lambda>u. Throws e) = Fulfilled \<lparr>data = JNull, error = e\<rparr> \<and>
     tryCatchFn (\<lambda>u. Returns (JPromise (Rejected e))) = Fulfilled \<lparr>data = JNull, error = e\<rparr>"
  by (simp add: tryCatch_Rejected tryCatchFn_Throws tryCatchFn_Returns_promise)

theorem non_error_failure_passed_through_witness:
  "\<not> is_error_object (JString ''oops'') \<and>
   tryCatch (Rejected (JString ''oops'')) = Fulfilled \<lparr>data = JNull, error = JString ''oops''\<rparr> \<and>
   tryCatchFn (\<lambda>u. Throws (JString ''oops'')) =
     Fulfilled \<lparr>data = JNull, error = JString ''oops''\<rparr> \<and>
   tryCatchFn (\<lambda>u. Returns (JPromise (Rejected (JString ''oops'')))) =
     Fulfilled \<lparr>data = JNull, error = JString ''oops''\<rparr>"
proof -
  have plain: "\<not> is_error_object (JString ''oops'')"
    by simp
  show ?thesis
    using plain non_error_failure_passed_through [OF plain] by simp
qed

section \<open>No timeout, no cancellation\<close>

text \<open>
  C8. The promise returned by \<open>tryCatch\<close> settles if and only if the input promise
  settles; in particular it stays pending for an input that never settles. The body
  awaits the input promise and nothing else, so no timer or cancellation takes part.
\<close>

theorem tryCatch_settles_iff_input_settles:
  "(tryCatch p \<noteq> Pending) = (p \<noteq> Pending) \<and>
   tryCatch Pending = Pending \<and>
   awaited (tryCatch_body p) = [JPromise p]"
  by (cases p)
    (simp_all add: tryCatch_Pending tryCatch_Fulfilled tryCatch_Rejected
      tryCatch_body_Pending tryCatch_body_Fulfilled tryCatch_body_Rejected awaited_def)

section \<open>Agreement of the two entry points\<close>

text \<open>
  C9. For every promise \<open>p\<close>, \<open>tryCatchFn\<close> on the thunk \<^verbatim>\<open>() => p\<close> gives the same
  result as \<open>tryCatch\<close> on \<open>p\<close>; the two bodies even run alike, awaiting the same operand.
\<close>

theorem tryCatchFn_on_constant_thunk:
  "tryCatchFn (\<lambda>u. Returns (JPromise p)) = tryCatch p \<and>
   tryCatchFn_body (\<lambda>u. Returns (JPromise p)) = tryCatch_body p"
  by (simp add: tryCatchFn_Returns_promise tryCatchFn_body_Returns_promise)

section \<open>Settlements with null\<close>

text \<open>
  C10. An operation that settles successfully with \<^verbatim>\<open>null\<close>, and one that fails with
  the thrown value \<^verbatim>\<open>null\<close>, both give \<^verbatim>\<open>{ data: null, error: null }\<close>. Both slots hold
  the absent marker; the test \<^verbatim>\<open>error === null\<close> takes the failure for a success, and
  the two results are equal, so nothing tells them apart.
\<close>

theorem null_settlement_fills_no_slot:
  "tryCatch (Fulfilled JNull) = Fulfilled \<lparr>data = JNull, error = JNull\<rparr> \<and>
   tryCatch (Rejected JNull) = Fulfilled \<lparr>data = JNull, error = JNull\<rparr> \<and>
   tryCatchFn (\<lambda>u. Returns JNull) = Fulfilled \<lparr>data = JNull, error = JNull\<rparr> \<and>
   tryCatchFn (\<lambda>u. Throws JNull) = Fulfilled \<lparr>data = JNull, error = JNull\<rparr> \<and>
   tryCatch (Rejected JNull) = tryCatch (Fulfilled JNull) \<and>
   tryCatchFn (\<lambda>u. Throws JNull) = tryCatchFn (\<lambda>u. Returns JNull) \<and>
   error \<lparr>data = JNull, error = JNull\<rparr> = JNull \<and>
   data \<lparr>data = JNull, error = JNull\<rparr> = JNull"
  by (simp add: tryCatch_Fulfilled tryCatch_Rejected tryCatchFn_Returns_plain tryCatchFn_Throws)

section \<open>The returned promise never rejects\<close>

lemma thunk_cases:
  obtains (throws) e where "fn () = Throws e"
  | (plain) v where "fn () = Returns v" and "\<not> is_promise v"
  | (promise) p where "fn () = Returns (JPromise p)"
proof (cases "fn ()")
  case (Returns v)
  then show ?thesis
    using plain promise by (cases v) simp_all
next
  case (Throws e)
  then show ?thesis
    using throws by simp
qed

lemma tryCatch_not_Rejected: "tryCatch p \<noteq> Rejected e"
  by (cases p) (simp_all add: tryCatch_Pending tryCatch_Fulfilled tryCatch_Rejected)

lemma tryCatch_settled_Fulfilled: "p \<noteq> Pending \<Longrightarrow> \<exists>r. tryCatch p = Fulfilled r"
  by (cases p) (simp_all add: tryCatch_Fulfilled tryCatch_Rejected)

lemma tryCatchFn_not_Rejected: "tryCatchFn fn \<noteq> Rejected e"
proof (cases fn rule: thunk_cases)
  case (throws x)
  then show ?thesis by (simp add: tryCatchFn_Throws)
next
  case (plain v)
  then show ?thesis by (simp add: tryCatchFn_Returns_plain)
next
  case (promise p)
  then show ?thesis by (simp add: tryCatchFn_Returns_promise tryCatch_not_Rejected)
qed

lemma tryCatchFn_settled_Fulfilled:
  assumes "fn () \<noteq> Returns (JPromise Pending)"
  shows "\<exists>r. tryCatchFn fn = Fulfilled r"
proof (cases fn rule: thunk_cases)
  case (throws x)
  then show ?thesis by (simp add: tryCatchFn_Throws)
next
  case (plain v)
  then show ?thesis by (simp add: tryCatchFn_Returns_plain)
next
  case (promise p)
  with assms have "p \<noteq> Pending" by auto
  with promise show ?thesis
    by (simp add: tryCatchFn_Returns_promise tryCatch_settled_Fulfilled)
qed

text \<open>
  C1, as amended. For every input, the promise returned by \<open>tryCatch\<close> or \<open>tryCatchFn\<close>
  never rejects, and it is fulfilled with a Result whenever the awaited promise settles:
  for every promise given to \<open>tryCatch\<close> other than one that stays pending, and for every
  thunk given to \<open>tryCatchFn\<close> (one that throws, one that returns a plain value, one that
  returns a promise that fulfils or rejects) other than one that returns a promise that
  stays pending.
\<close>

theorem wrapper_never_rejects:
  "tryCatch p \<noteq> Rejected e \<and>
   tryCatchFn fn \<noteq> Rejected e \<and>
   (p \<noteq> Pending \<longrightarrow> (\<exists>r. tryCatch p = Fulfilled r)) \<and>
   (fn () \<noteq> Returns (JPromise Pending) \<longrightarrow> (\<exists>r. tryCatchFn fn = Fulfilled r))"
  by (simp add: tryCatch_not_Rejected tryCatchFn_not_Rejected tryCatch_settled_Fulfilled
      tryCatchFn_settled_Fulfilled)

theorem wrapper_never_rejects_witness:
  "tryCatch (Rejected (JErrorObj ''Error'' ''boom'')) \<noteq> Rejected (JErrorObj ''Error'' ''boom'') \<and>
   tryCatchFn (\<lambda>u. Throws (JErrorObj ''RangeError'' ''bad'')) \<noteq>
     Rejected (JErrorObj ''Error'' ''boom'') \<and>
   (\<exists>r. tryCatch (Rejected (JErrorObj ''Error'' ''boom'')) = Fulfilled r) \<and>
   (\<exists>r. tryCatchFn (\<lambda>u. Throws (JErrorObj ''RangeError'' ''bad'')) = Fulfilled r)"
  using wrapper_never_rejects [of "Rejected (JErrorObj ''Error'' ''boom'')"
      "JErrorObj ''Error'' ''boom''" "\<lambda>u. Throws (JErrorObj ''RangeError'' ''bad'')"]
  by simp

text \<open>
  The claim as it stands says the returned promise always settles. It does not for an
  input that never settles: the returned promise then stays pending, for both entry
  points.
\<close>

theorem wrapper_always_settles_counterexample:
  "tryCatch Pending = Pending \<and>
   tryCatchFn (\<lambda>u. Returns (JPromise Pending)) = Pending"
  by (simp add: tryCatch_Pending tryCatchFn_Returns_promise)

section \<open>Mutual exclusivity of the slots\<close>

lemma tryCatch_Fulfilled_cases:
  assumes "tryCatch p = Fulfilled r"
  obtains (success) v where "p = Fulfilled v" and "r = \<lparr>data = v, error = JNull\<rparr>"
  | (failure) e where "p = Rejected e" and "r = \<lparr>data = JNull, error = e\<rparr>"
  using assms
  by (cases p) (simp_all add: tryCatch_Pending tryCatch_Fulfilled tryCatch_Rejected)

lemma tryCatch_slots:
  assumes "tryCatch p = Fulfilled r"
  shows "\<not> both_populated r"
    and "p \<noteq> Fulfilled JNull \<Longrightarrow> p \<noteq> Rejected JNull \<Longrightarrow> exactly_one_populated r"
  using assms
  by (cases rule: tryCatch_Fulfilled_cases;
      simp add: both_populated_def exactly_one_populated_def)+

lemma tryCatchFn_slots:
  assumes "tryCatchFn fn = Fulfilled r"
  shows "\<not> both_populated r"
    and "fn () \<noteq> Returns JNull \<Longrightarrow> fn () \<noteq> Throws JNull \<Longrightarrow>
         fn () \<noteq> Returns (JPromise (Fulfilled JNull)) \<Longrightarrow>
         fn () \<noteq> Returns (JPromise (Rejected JNull)) \<Longrightarrow> exactly_one_populated r"
proof -
  have "\<not> both_populated r \<and>
    (fn () \<noteq> Returns JNull \<longrightarrow> fn () \<noteq> Throws JNull \<longrightarrow>
     fn () \<noteq> Returns (JPromise (Fulfilled JNull)) \<longrightarrow>
     fn () \<noteq> Returns (JPromise (Rejected JNull)) \<longrightarrow> exactly_one_populated r)"
  proof (cases fn rule: thunk_cases)
    case (throws x)
    with assms have "r = \<lparr>data = JNull, error = x\<rparr>"
      by (simp add: tryCatchFn_Throws)
    with throws show ?thesis
      by (simp add: both_populated_def exactly_one_populated_def)
  next
    case (plain v)
    with assms have "r = \<lparr>data = v, error = JNull\<rparr>"
      by (simp add: tryCatchFn_Returns_plain)
    with plain show ?thesis
      by (simp add: both_populated_def exactly_one_populated_def)
  next
    case (promise p)
    with assms have "tryCatch p = Fulfilled r"
      by (simp add: tryCatchFn_Returns_promise)
    with promise show ?thesis
      using tryCatch_slots [of p r] by auto
  qed
  then show "\<not> both_populated r"
    and "fn () \<noteq> Returns JNull \<Longrightarrow> fn () \<noteq> Throws JNull \<Longrightarrow>
         fn () \<noteq> Returns (JPromise (Fulfilled JNull)) \<Longrightarrow>
         fn () \<noteq> Returns (JPromise (Rejected JNull)) \<Longrightarrow> exactly_one_populated r"
    by simp_all
qed

text \<open>
  C2, as amended. In every Result that \<open>tryCatch\<close> or \<open>tryCatchFn\<close> settles with, the
  two slots are never both populated; and exactly one of them is populated whenever the
  value the operation settled with, or failed with, is not \<^verbatim>\<open>null\<close>.
\<close>

theorem slots_mutually_exclusive:
  "(tryCatch p = Fulfilled r \<longrightarrow>
      \<not> both_populated r \<and>
      (p \<noteq> Fulfilled JNull \<and> p \<noteq> Rejected JNull \<longrightarrow> exactly_one_populated r)) \<and>
   (tryCatchFn fn = Fulfilled r' \<longrightarrow>
      \<not> both_populated r' \<and>
      (fn () \<noteq> Returns JNull \<and> fn () \<noteq> Throws JNull \<and>
       fn () \<noteq> Returns (JPromise (Fulfilled JNull)) \<and>
       fn () \<noteq> Returns (JPromise (Rejected JNull)) \<longrightarrow> exactly_one_populated r'))"
  using tryCatch_slots [of p r] tryCatchFn_slots [of fn r'] by blast

theorem slots_mutually_exclusive_witness:
  "tryCatch (Fulfilled (JString ''ok'')) = Fulfilled \<lparr>data = JString ''ok'', error = JNull\<rparr> \<and>
   \<not> both_populated \<lparr>data = JString ''ok'', error = JNull\<rparr> \<and>
   exactly_one_populated \<lparr>data = JString ''ok'', error = JNull\<rparr> \<and>
   tryCatchFn (\<lambda>u. Throws (JErrorObj ''RangeError'' ''bad'')) =
     Fulfilled \<lparr>data = JNull, error = JErrorObj ''RangeError'' ''bad''\<rparr> \<and>
   \<not> both_populated \<lparr>data = JNull, error = JErrorObj ''RangeError'' ''bad''\<rparr> \<and>
   exactly_one_populated \<lparr>data = JNull, error = JErrorObj ''RangeError'' ''bad''\<rparr>"
proof -
  have a: "tryCatch (Fulfilled (JString ''ok'')) =
      Fulfilled \<lparr>data = JString ''ok'', error = JNull\<rparr>"
    by (simp add: tryCatch_Fulfilled)
  have b: "tryCatchFn (\<lambda>u. Throws (JErrorObj ''RangeError'' ''bad'')) =
      Fulfilled \<lparr>data = JNull, error = JErrorObj ''RangeError'' ''bad''\<rparr>"
    by (simp add: tryCatchFn_Throws)
  show ?thesis
    using a b
      slots_mutually_exclusive [of "Fulfilled (JString ''ok'')"
        "\<lparr>data = JString ''ok'', error = JNull\<rparr>"
        "\<lambda>u. Throws (JErrorObj ''RangeError'' ''bad'')"
        "\<lparr>data = JNull, error = JErrorObj ''RangeError'' ''bad''\<rparr>"]
    by simp
qed

text \<open>
  The claim as it stands says exactly one slot is populated in every Result. A promise
  fulfilled with \<^verbatim>\<open>null\<close> gives a Result with neither slot populated.
\<close>

theorem slots_exactly_one_counterexample:
  "tryCatch (Fulfilled JNull) = Fulfilled \<lparr>data = JNull, error = JNull\<rparr> \<and>
   \<not> exactly_one_populated \<lparr>data = JNull, error = JNull\<rparr>"
  by (simp add: tryCatch_Fulfilled exactly_one_populated_def)

end
